theory Spec2Isabelle
  imports Main
begin

section \<open>JavaScript values\<close>

text \<open>
  The response body, the echoed request parameters and the result of a transform are
  typed \<^verbatim>\<open>any\<close> in the source. They are modelled by a datatype of JSON-like
  values; an object is an association list from property names to values, read with
  \<open>map_of\<close> (the first binding of a name is the property).
  Numbers are restricted to integers: the only numbers the program inspects are HTTP
  status codes.
\<close>

datatype jsval =
    JUndefined
  | JNull
  | JBool bool
  | JNum int
  | JStr string
  | JArr "jsval list"
  | JObj "(string \<times> jsval) list"

section \<open>The axios interface\<close>

datatype http_method = GET | POST

text \<open>
  The request configuration handed to \<^verbatim>\<open>axios.get\<close> / \<^verbatim>\<open>axios.post\<close>, with the
  fields this program sets or reads. \<open>meth\<close> is the method implied by the axios function
  called, \<open>body\<close> is the second argument of \<^verbatim>\<open>axios.post\<close> (axios calls it
  \<^verbatim>\<open>data\<close>), \<open>follows\<close> and \<open>templates\<close> are the HAL options. A field the
  caller leaves out is \<open>JUndefined\<close> or the empty list.
\<close>

record axios_request_config =
  meth :: http_method
  url :: string
  baseURL :: string
  headers :: "(string \<times> string) list"
  body :: jsval
  follows :: "string list"
  templates :: "(string \<times> string) list"
  params :: jsval

text \<open>\<^verbatim>\<open>AxiosResponse<any>\<close>: the body, the status code and the echoed configuration.\<close>

record axios_response =
  data :: jsval
  status :: int
  config :: axios_request_config

text \<open>
  A value caught by \<^verbatim>\<open>catch (e)\<close>: an Error object. \<open>message\<close> is its message,
  \<open>response\<close> its optional \<^verbatim>\<open>response\<close> property (\<open>None\<close> is
  \<^verbatim>\<open>undefined\<close>), \<open>isAxiosError\<close> is what \<^verbatim>\<open>axios.isAxiosError(e)\<close>
  answers for it, and \<open>others\<close> holds every other property of the object (its
  name, stack, code and so on).
\<close>

record js_error =
  message :: string
  isAxiosError :: bool
  response :: "axios_response option"
  others :: "(string \<times> jsval) list"

text \<open>
  What the single awaited HTTP call settles to, as a function of the request issued:
  \<open>Inl e\<close> when the promise rejects with \<open>e\<close>, \<open>Inr r\<close> when it resolves
  with the response \<open>r\<close>.
\<close>

type_synonym http = "axios_request_config \<Rightarrow> js_error + axios_response"

text \<open>A server that settles every request the same way.\<close>

definition settle_all :: "js_error + axios_response \<Rightarrow> http" where
  "settle_all outcome req = outcome"

text \<open>
  What a call rejects with: a freshly constructed typed error (\<open>Typed\<close>), the
  caught error object itself, thrown again from the \<^verbatim>\<open>catch\<close> block
  (\<open>Rethrown\<close>), or an error that never entered the \<^verbatim>\<open>catch\<close> block
  (\<open>Uncaught\<close>).
\<close>

datatype 'e rejection = Typed 'e | Rethrown js_error | Uncaught js_error

text \<open>\<^verbatim>\<open>e.message = `${context}: ${e.message}`; throw e;\<close>\<close>

definition rethrow :: "string \<Rightarrow> js_error \<Rightarrow> 'e rejection" where
  "rethrow errorContext e = Rethrown (e\<lparr>message := errorContext @ '': '' @ message e\<rparr>)"

section \<open>Task completion (src/unnamed/part\_001)\<close>

text \<open>
  The \<^verbatim>\<open>Task\<close> interface is imported; the program reads its optional
  \<^verbatim>\<open>location\<close> only (\<open>None\<close> is an absent or \<^verbatim>\<open>undefined\<close> location).
\<close>

record Task =
  location :: "string option"

text \<open>
  The \<^verbatim>\<open>task\<close> argument, \<^verbatim>\<open>string | Task\<close>, with the two values the truthiness
  tests of the source guard against.
\<close>

datatype task_arg = TaskUndefined | TaskNull | TaskString string | TaskObject Task

text \<open>
  \<^verbatim>\<open>class TaskAlreadyCompletedError extends Error\<close>: the message built by the
  constructor and the two public fields.
\<close>

record TaskAlreadyCompletedError =
  tace_message :: string
  tace_location :: string
  tace_response :: axios_response

definition new_TaskAlreadyCompletedError ::
  "string \<Rightarrow> string \<Rightarrow> axios_response \<Rightarrow> TaskAlreadyCompletedError" where
  "new_TaskAlreadyCompletedError ctx loc resp =
     \<lparr> tace_message = ctx @ '': Task was already completed at location: '' @ loc,
       tace_location = loc,
       tace_response = resp \<rparr>"

text \<open>
  The typed errors of the task package. All but the last are imported classes; each
  constructor keeps the arguments the source passes to \<^verbatim>\<open>new\<close>.
\<close>

datatype task_error =
    NoTaskLocationError string task_arg
  | UnauthenticatedError string axios_response
  | UnauthorizedError_task string axios_response
  | TaskNotFoundError string string axios_response
  | TaskAlreadyCompleted TaskAlreadyCompletedError

text \<open>
  Lines 49--55: \<^verbatim>\<open>task && typeof task === "string"\<close> holds of a non-empty string;
  \<^verbatim>\<open>task && task.location\<close> holds of an object with a non-empty location; every
  other argument reaches the \<^verbatim>\<open>else\<close> branch (\<open>None\<close>).
\<close>

fun task_location :: "task_arg \<Rightarrow> string option" where
  "task_location (TaskString s) = (if s \<noteq> [] then Some s else None)"
| "task_location (TaskObject t) =
     (case location t of
        Some l \<Rightarrow> (if l \<noteq> [] then Some l else None)
      | None \<Rightarrow> None)"
| "task_location TaskUndefined = None"
| "task_location TaskNull = None"

definition completeTask_request :: "string \<Rightarrow> string \<Rightarrow> string \<Rightarrow> axios_request_config" where
  "completeTask_request baseUri sessionId loc =
     \<lparr> meth = POST,
       url = loc @ ''/completionState'',
       baseURL = baseUri,
       headers = [(''Authorization'', ''Bearer '' @ sessionId), (''Origin'', baseUri)],
       body = JObj [(''complete'', JBool True)],
       follows = [],
       templates = [],
       params = JUndefined \<rparr>"

text \<open>The \<^verbatim>\<open>catch\<close> block of \<^verbatim>\<open>completeTask\<close>, lines 65--80.\<close>

definition completeTask_catch :: "string \<Rightarrow> string \<Rightarrow> js_error \<Rightarrow> task_error rejection" where
  "completeTask_catch ctx loc e =
     (case response e of
        Some r \<Rightarrow>
          (if status r = 401 then Typed (UnauthenticatedError ctx r)
           else if status r = 403 then Typed (UnauthorizedError_task ctx r)
           else if status r = 404 then Typed (TaskNotFoundError ctx loc r)
           else if status r = 410 then Typed (TaskAlreadyCompleted (new_TaskAlreadyCompletedError ctx loc r))
           else rethrow ctx e)
      | None \<Rightarrow> rethrow ctx e)"

text \<open>
  \<^verbatim>\<open>completeTask\<close>: the outcome (\<open>Inl\<close> a rejection, \<open>Inr ()\<close> the resolved
  \<^verbatim>\<open>Promise<void>\<close>) and the list of HTTP requests issued, in order.
\<close>

definition completeTask ::
  "http \<Rightarrow> string \<Rightarrow> string \<Rightarrow> task_arg \<Rightarrow> (task_error rejection + unit) \<times> axios_request_config list" where
  "completeTask axios_post baseUri sessionId task =
     (let ctx = ''Failed to complete task'' in
      case task_location task of
        None \<Rightarrow> (Inl (Typed (NoTaskLocationError ctx task)), [])
      | Some loc \<Rightarrow>
          (let req = completeTask_request baseUri sessionId loc in
           (case axios_post req of
              Inr _ \<Rightarrow> Inr ()
            | Inl e \<Rightarrow> Inl (completeTask_catch ctx loc e),
            [req])))"


section \<open>Fetching a DmsObject (src/unnamed/part\_000)\<close>

record TenantContext =
  systemBaseUri :: string
  authSessionId :: string

record GetDmsObjectParams =
  repositoryId :: string
  sourceId :: string
  dmsObjectId :: string

text \<open>
  Reading a property, \<^verbatim>\<open>v.k\<close>. On \<^verbatim>\<open>undefined\<close> and \<^verbatim>\<open>null\<close> the read throws
  a TypeError; on an object it yields the property, or \<^verbatim>\<open>undefined\<close> when the
  object has none of that name. The names this program reads (repositoryid, sourceid,
  id, sourceCategories, sourceProperties) are no properties of a boolean, a number, a
  string or an array, so there the read yields \<^verbatim>\<open>undefined\<close>.
\<close>

definition nullish :: "jsval \<Rightarrow> bool" where
  "nullish v = (v = JUndefined \<or> v = JNull)"

fun js_prop :: "jsval \<Rightarrow> string \<Rightarrow> jsval" where
  "js_prop (JObj kvs) k = (case map_of kvs k of Some v \<Rightarrow> v | None \<Rightarrow> JUndefined)"
| "js_prop v k = JUndefined"

text \<open>
  The TypeError of a failed read. It is a plain Error object: no axios error, no
  response. The wording of its message is the JavaScript engine's.
\<close>

definition cannot_read :: "jsval \<Rightarrow> string \<Rightarrow> js_error" where
  "cannot_read v k =
     \<lparr> message = ''Cannot read properties of ''
                 @ (if v = JNull then ''null'' else ''undefined'')
                 @ '' (reading '' @ [CHR 0x27] @ k @ [CHR 0x27] @ '')'',
       isAxiosError = False,
       response = None,
       others = [(''name'', JStr ''TypeError'')] \<rparr>"

definition js_get :: "jsval \<Rightarrow> string \<Rightarrow> js_error + jsval" where
  "js_get v k = (if nullish v then Inl (cannot_read v k) else Inr (js_prop v k))"

text \<open>Sequencing: the rest of an evaluation runs only when the step before it did not throw.\<close>

definition and_then :: "js_error + 'a \<Rightarrow> ('a \<Rightarrow> js_error + 'b) \<Rightarrow> js_error + 'b" where
  "and_then x f = (case x of Inl e \<Rightarrow> Inl e | Inr v \<Rightarrow> f v)"

text \<open>
  \<^verbatim>\<open>transformGetDmsObjectResponse\<close>, lines 36--44. The object literal evaluates its
  five property reads in order; the first that throws ends the evaluation. The
  DmsObject is the object with the five properties of the literal.
\<close>

definition transformGetDmsObjectResponse :: "axios_response \<Rightarrow> js_error + jsval" where
  "transformGetDmsObjectResponse resp =
     and_then (js_get (params (config resp)) ''repositoryid'') (\<lambda>v1.
     and_then (js_get (params (config resp)) ''sourceid'') (\<lambda>v2.
     and_then (js_get (data resp) ''id'') (\<lambda>v3.
     and_then (js_get (data resp) ''sourceCategories'') (\<lambda>v4.
     and_then (js_get (data resp) ''sourceProperties'') (\<lambda>v5.
       Inr (JObj [(''repositoryId'', v1), (''sourceId'', v2), (''id'', v3),
                  (''categories'', v4), (''properties'', v5)]))))))"

text \<open>The typed errors of the dms package, each built from the context and the caught error.\<close>

datatype dms_error =
    BadRequestError string js_error
  | UnauthorizedError string js_error
  | NotFoundError string js_error

text \<open>The configuration of the one \<^verbatim>\<open>axios.get\<close> call, lines 75--87.\<close>

definition getDmsObject_request :: "TenantContext \<Rightarrow> GetDmsObjectParams \<Rightarrow> axios_request_config" where
  "getDmsObject_request ctx ps =
     \<lparr> meth = GET,
       url = ''/dms'',
       baseURL = systemBaseUri ctx,
       headers = [(''Authorization'', ''Bearer '' @ authSessionId ctx),
                  (''Accept'', ''application/hal+json'')],
       body = JUndefined,
       follows = [''repo'', ''dmsobjectwithmapping''],
       templates = [(''repositoryid'', repositoryId ps),
                    (''dmsobjectid'', dmsObjectId ps),
                    (''sourceid'', sourceId ps)],
       params = JUndefined \<rparr>"

text \<open>
  The \<^verbatim>\<open>catch\<close> block of \<^verbatim>\<open>getDmsObject\<close>, lines 90--107.
  \<^verbatim>\<open>e.response?.status\<close> is \<^verbatim>\<open>undefined\<close> (\<open>None\<close>) when the error has no
  response; the \<^verbatim>\<open>switch\<close> compares it with \<^verbatim>\<open>===\<close>, and a status that matches no
  \<^verbatim>\<open>case\<close> falls through to the statements after the \<^verbatim>\<open>if\<close>.
\<close>

definition getDmsObject_catch :: "js_error \<Rightarrow> dms_error rejection" where
  "getDmsObject_catch e =
     (let errorContext = ''Failed to get dmsObject'' in
      if isAxiosError e then
        (let st = map_option status (response e) in
         if st = Some 400 then Typed (BadRequestError errorContext e)
         else if st = Some 401 then Typed (UnauthorizedError errorContext e)
         else if st = Some 404 then Typed (NotFoundError errorContext e)
         else rethrow errorContext e)
      else rethrow errorContext e)"

text \<open>
  What a call of a transform hands back when it does not throw: a plain value, or a
  promise, given by what the promise settles to (\<open>Inl e\<close> when it rejects with
  \<open>e\<close>, \<open>Inr v\<close> when it resolves with \<open>v\<close>). A transform is a function
  from the response to \<open>Inl e\<close>, when the call throws \<open>e\<close>, or \<open>Inr\<close> of what
  it returns.
\<close>

datatype transform_return = Returned jsval | ReturnedPromise "js_error + jsval"

type_synonym transform = "axios_response \<Rightarrow> js_error + transform_return"

text \<open>
  Line 89, \<^verbatim>\<open>return transform(response)\<close>, does not await what the transform returns.
  An \<^verbatim>\<open>async\<close> function that returns a promise settles as that promise does, after
  the \<^verbatim>\<open>try\<close> statement has been left: a rejection of the returned promise is not
  caught.
\<close>

fun settle_returned :: "transform_return \<Rightarrow> 'e rejection + jsval" where
  "settle_returned (Returned v) = Inr v"
| "settle_returned (ReturnedPromise (Inr v)) = Inr v"
| "settle_returned (ReturnedPromise (Inl e)) = Inl (Uncaught e)"

text \<open>
  The default value of the third parameter: \<^verbatim>\<open>transformGetDmsObjectResponse\<close>, which
  returns a plain object or throws.
\<close>

definition default_transform :: transform where
  "default_transform resp =
     (case transformGetDmsObjectResponse resp of Inl e \<Rightarrow> Inl e | Inr v \<Rightarrow> Inr (Returned v))"

text \<open>
  \<^verbatim>\<open>getDmsObject\<close>, lines 72--108. \<open>transform_arg\<close> is the optional third argument:
  \<open>None\<close> when the caller leaves it out, so that the default parameter value applies.
  The awaited request and the call of the transform run inside the \<^verbatim>\<open>try\<close>: a
  rejection of the request and an error the transform throws reach the \<^verbatim>\<open>catch\<close>
  block. The result is the outcome and the list of requests issued.
\<close>

definition getDmsObject ::
  "http \<Rightarrow> TenantContext \<Rightarrow> GetDmsObjectParams \<Rightarrow> transform option
     \<Rightarrow> (dms_error rejection + jsval) \<times> axios_request_config list" where
  "getDmsObject axios_get ctx ps transform_arg =
     (let transform = (case transform_arg of None \<Rightarrow> default_transform | Some t \<Rightarrow> t);
          req = getDmsObject_request ctx ps
      in (case axios_get req of
            Inl e \<Rightarrow> Inl (getDmsObject_catch e)
          | Inr resp \<Rightarrow>
              (case transform resp of
                 Inl e \<Rightarrow> Inl (getDmsObject_catch e)
               | Inr x \<Rightarrow> settle_returned x),
          [req]))"

section \<open>Concrete inputs\<close>

text \<open>The error axios rejects with when the server answers with a failure status.\<close>

definition status_failure :: "bool \<Rightarrow> int \<Rightarrow> axios_request_config \<Rightarrow> js_error" where
  "status_failure axios_made code req =
     \<lparr> message = ''Request failed'',
       isAxiosError = axios_made,
       response = Some \<lparr> data = JNull, status = code, config = req \<rparr>,
       others = [(''name'', JStr ''Error'')] \<rparr>"

text \<open>A server that answers every request with the same failure status.\<close>

definition failing_server :: "bool \<Rightarrow> int \<Rightarrow> http" where
  "failing_server axios_made code req = Inl (status_failure axios_made code req)"

text \<open>A failure without any response: the connection was refused.\<close>

definition network_error :: js_error where
  "network_error =
     \<lparr> message = ''connect ECONNREFUSED'',
       isAxiosError = True,
       response = None,
       others = [(''code'', JStr ''ECONNREFUSED'')] \<rparr>"

text \<open>
  A server that answers every request with status 200 and the given body; the response
  echoes the configuration of the request, with the given \<^verbatim>\<open>params\<close>.
\<close>

definition echo_server :: "jsval \<Rightarrow> jsval \<Rightarrow> http" where
  "echo_server ps b req = Inr \<lparr> data = b, status = 200, config = req\<lparr>params := ps\<rparr> \<rparr>"

definition example_context :: TenantContext where
  "example_context = \<lparr> systemBaseUri = ''https://umbrella-corp.d-velop.cloud'',
                       authSessionId = ''AUTH_SESSION_ID'' \<rparr>"

definition example_params :: GetDmsObjectParams where
  "example_params = \<lparr> repositoryId = ''repo1'', sourceId = ''src1'', dmsObjectId = ''D42'' \<rparr>"

definition example_body :: jsval where
  "example_body = JObj [(''id'', JStr ''D42''),
                        (''sourceCategories'', JArr [JStr ''invoice'']),
                        (''sourceProperties'', JArr [JObj [(''key'', JStr ''k''), (''value'', JStr ''v'')]])]"

definition example_echoed_params :: jsval where
  "example_echoed_params = JObj [(''repositoryid'', JStr ''repo1''), (''sourceid'', JStr ''src1'')]"

text \<open>
  A caller's transform that reads the status code of the raw response, which the
  DmsObject of the default transform does not hold.
\<close>

definition status_transform :: transform where
  "status_transform resp = Inr (Returned (JNum (status resp)))"

text \<open>The same transform written as an \<^verbatim>\<open>async\<close> function: its promise resolves.\<close>

definition async_status_transform :: transform where
  "async_status_transform resp = Inr (ReturnedPromise (Inr (JNum (status resp))))"

text \<open>An error of the caller's own, with no response.\<close>

definition transform_failure :: js_error where
  "transform_failure =
     \<lparr> message = ''unexpected body'',
       isAxiosError = False,
       response = None,
       others = [(''name'', JStr ''Error'')] \<rparr>"

text \<open>A transform that throws this error, and an \<^verbatim>\<open>async\<close> one whose promise rejects with it.\<close>

definition throwing_transform :: transform where
  "throwing_transform resp = Inl transform_failure"

definition rejecting_transform :: transform where
  "rejecting_transform resp = Inr (ReturnedPromise (Inl transform_failure))"

section \<open>Properties of task completion\<close>

lemma task_location_Some_iff:
  "task_location task = Some loc \<longleftrightarrow>
     loc \<noteq> [] \<and> (task = TaskString loc \<or> (\<exists>t. task = TaskObject t \<and> location t = Some loc))"
  by (cases task) (auto split: option.splits)

text \<open>
  C1. Whenever the task argument resolves to a non-empty location and the request is
  rejected with an error that carries a response, \<^verbatim>\<open>completeTask\<close> throws
  UnauthenticatedError for status 401, UnauthorizedError for status 403,
  TaskNotFoundError for status 404, and for status 410 a TaskAlreadyCompletedError whose
  location field is the resolved location.
\<close>

theorem completeTask_status_errors:
  assumes "task_location task = Some loc"
    and "axios_post (completeTask_request baseUri sessionId loc) = Inl e"
    and "response e = Some r"
  shows "(status r = 401 \<longrightarrow>
            fst (completeTask axios_post baseUri sessionId task)
              = Inl (Typed (UnauthenticatedError ''Failed to complete task'' r)))
       \<and> (status r = 403 \<longrightarrow>
            fst (completeTask axios_post baseUri sessionId task)
              = Inl (Typed (UnauthorizedError_task ''Failed to complete task'' r)))
       \<and> (status r = 404 \<longrightarrow>
            fst (completeTask axios_post baseUri sessionId task)
              = Inl (Typed (TaskNotFoundError ''Failed to complete task'' loc r)))
       \<and> (status r = 410 \<longrightarrow>
            (\<exists>err. fst (completeTask axios_post baseUri sessionId task)
                     = Inl (Typed (TaskAlreadyCompleted err))
                 \<and> tace_location err = loc
                 \<and> tace_response err = r
                 \<and> tace_message err
                     = ''Failed to complete task: Task was already completed at location: '' @ loc))"
  using assms
  by (simp add: completeTask_def completeTask_catch_def new_TaskAlreadyCompletedError_def)

theorem completeTask_status_errors_witness:
  "task_location (TaskString ''/some/task/location'') = Some ''/some/task/location''
   \<and> fst (completeTask (failing_server True 410) ''https://umbrella-corp.d-velop.cloud''
             ''AUTH_SESSION_ID'' (TaskString ''/some/task/location''))
       = Inl (Typed (TaskAlreadyCompleted
           \<lparr> tace_message = ''Failed to complete task: Task was already completed at location: /some/task/location'',
             tace_location = ''/some/task/location'',
             tace_response =
               \<lparr> data = JNull, status = 410,
                 config = completeTask_request ''https://umbrella-corp.d-velop.cloud''
                            ''AUTH_SESSION_ID'' ''/some/task/location'' \<rparr> \<rparr>))
   \<and> fst (completeTask (failing_server False 401) ''https://umbrella-corp.d-velop.cloud''
             ''AUTH_SESSION_ID'' (TaskObject \<lparr> location = Some ''/t/7'' \<rparr>))
       = Inl (Typed (UnauthenticatedError ''Failed to complete task''
           \<lparr> data = JNull, status = 401,
             config = completeTask_request ''https://umbrella-corp.d-velop.cloud''
                        ''AUTH_SESSION_ID'' ''/t/7'' \<rparr>))"
proof -
  let ?b = "''https://umbrella-corp.d-velop.cloud''" and ?s = "''AUTH_SESSION_ID''"
  let ?l = "''/some/task/location''"
  let ?r410 = "\<lparr> data = JNull, status = 410, config = completeTask_request ?b ?s ?l \<rparr>"
  let ?r401 = "\<lparr> data = JNull, status = 401, config = completeTask_request ?b ?s ''/t/7'' \<rparr>"
  have l1: "task_location (TaskString ?l) = Some ?l"
    by simp
  have l2: "task_location (TaskObject \<lparr> location = Some ''/t/7'' \<rparr>) = Some ''/t/7''"
    by simp
  have p1: "failing_server True 410 (completeTask_request ?b ?s ?l)
              = Inl (status_failure True 410 (completeTask_request ?b ?s ?l))"
    by (simp add: failing_server_def)
  have p2: "failing_server False 401 (completeTask_request ?b ?s ''/t/7'')
              = Inl (status_failure False 401 (completeTask_request ?b ?s ''/t/7''))"
    by (simp add: failing_server_def)
  have r1: "response (status_failure True 410 (completeTask_request ?b ?s ?l)) = Some ?r410"
    by (simp add: status_failure_def)
  have r2: "response (status_failure False 401 (completeTask_request ?b ?s ''/t/7'')) = Some ?r401"
    by (simp add: status_failure_def)
  from completeTask_status_errors [where axios_post = "failing_server True 410", OF l1 p1 r1]
  obtain err where
    "fst (completeTask (failing_server True 410) ?b ?s (TaskString ?l)) = Inl (Typed (TaskAlreadyCompleted err))"
    "tace_location err = ?l" "tace_response err = ?r410"
    "tace_message err = ''Failed to complete task: Task was already completed at location: '' @ ?l"
    by auto
  then have a: "fst (completeTask (failing_server True 410) ?b ?s (TaskString ?l))
      = Inl (Typed (TaskAlreadyCompleted
           \<lparr> tace_message = ''Failed to complete task: Task was already completed at location: /some/task/location'',
             tace_location = ?l, tace_response = ?r410 \<rparr>))"
    by (cases err) simp
  from completeTask_status_errors [where axios_post = "failing_server False 401", OF l2 p2 r2]
  have b: "fst (completeTask (failing_server False 401) ?b ?s (TaskObject \<lparr> location = Some ''/t/7'' \<rparr>))
      = Inl (Typed (UnauthenticatedError ''Failed to complete task'' ?r401))"
    by simp
  from l1 a b show ?thesis
    by simp
qed

text \<open>
  C2. A task argument that is neither a non-empty string nor an object with a non-empty
  location (so also \<^verbatim>\<open>null\<close>, \<^verbatim>\<open>undefined\<close>, the empty string, and an object
  whose location is empty or absent) makes \<^verbatim>\<open>completeTask\<close> throw
  NoTaskLocationError, built from the context string and the argument; the list of
  requests issued is empty, whatever the server would have answered.
\<close>

theorem completeTask_no_location:
  assumes "\<not> (\<exists>s. task = TaskString s \<and> s \<noteq> [])"
    and "\<not> (\<exists>t l. task = TaskObject t \<and> location t = Some l \<and> l \<noteq> [])"
  shows "completeTask axios_post baseUri sessionId task
           = (Inl (Typed (NoTaskLocationError ''Failed to complete task'' task)), [])"
proof -
  have "task_location task = None"
  proof (cases task)
    case (TaskString s)
    with assms(1) show ?thesis by simp
  next
    case (TaskObject t)
    with assms(2) show ?thesis by (simp split: option.splits)
  qed simp_all
  then show ?thesis
    by (simp add: completeTask_def)
qed

theorem completeTask_no_location_witness:
  "completeTask (echo_server JUndefined JNull) ''https://h'' ''SID'' TaskNull
     = (Inl (Typed (NoTaskLocationError ''Failed to complete task'' TaskNull)), [])
   \<and> completeTask (echo_server JUndefined JNull) ''https://h'' ''SID'' TaskUndefined
     = (Inl (Typed (NoTaskLocationError ''Failed to complete task'' TaskUndefined)), [])
   \<and> completeTask (echo_server JUndefined JNull) ''https://h'' ''SID'' (TaskString [])
     = (Inl (Typed (NoTaskLocationError ''Failed to complete task'' (TaskString []))), [])
   \<and> completeTask (echo_server JUndefined JNull) ''https://h'' ''SID''
         (TaskObject \<lparr> location = None \<rparr>)
     = (Inl (Typed (NoTaskLocationError ''Failed to complete task''
          (TaskObject \<lparr> location = None \<rparr>))), [])
   \<and> completeTask (echo_server JUndefined JNull) ''https://h'' ''SID''
         (TaskObject \<lparr> location = Some [] \<rparr>)
     = (Inl (Typed (NoTaskLocationError ''Failed to complete task''
          (TaskObject \<lparr> location = Some [] \<rparr>))), [])"
proof -
  note inst = completeTask_no_location [where axios_post = "echo_server JUndefined JNull"
      and baseUri = "''https://h''" and sessionId = "''SID''"]
  have "completeTask (echo_server JUndefined JNull) ''https://h'' ''SID'' TaskNull
     = (Inl (Typed (NoTaskLocationError ''Failed to complete task'' TaskNull)), [])"
    by (rule inst) simp_all
  moreover have "completeTask (echo_server JUndefined JNull) ''https://h'' ''SID'' TaskUndefined
     = (Inl (Typed (NoTaskLocationError ''Failed to complete task'' TaskUndefined)), [])"
    by (rule inst) simp_all
  moreover have "completeTask (echo_server JUndefined JNull) ''https://h'' ''SID'' (TaskString [])
     = (Inl (Typed (NoTaskLocationError ''Failed to complete task'' (TaskString []))), [])"
    by (rule inst) simp_all
  moreover have "completeTask (echo_server JUndefined JNull) ''https://h'' ''SID''
         (TaskObject \<lparr> location = None \<rparr>)
     = (Inl (Typed (NoTaskLocationError ''Failed to complete task''
          (TaskObject \<lparr> location = None \<rparr>))), [])"
    by (rule inst) auto
  moreover have "completeTask (echo_server JUndefined JNull) ''https://h'' ''SID''
         (TaskObject \<lparr> location = Some [] \<rparr>)
     = (Inl (Typed (NoTaskLocationError ''Failed to complete task''
          (TaskObject \<lparr> location = Some [] \<rparr>))), [])"
    by (rule inst) auto
  ultimately show ?thesis
    by blast
qed

text \<open>
  C7. When the task argument resolves to the non-empty location \<open>loc\<close>,
  \<^verbatim>\<open>completeTask\<close> issues exactly one request: a POST to \<open>loc\<close> followed by
  \<^verbatim>\<open>/completionState\<close>, with the system base URI as baseURL, the body
  \<^verbatim>\<open>{complete: true}\<close> and the Authorization header \<^verbatim>\<open>Bearer \<close> followed by
  the session id; when the server answers that request with a response, the call
  resolves with no value.
\<close>

theorem completeTask_one_post:
  assumes "task_location task = Some loc"
  shows "snd (completeTask axios_post baseUri sessionId task)
           = [\<lparr> meth = POST,
                url = loc @ ''/completionState'',
                baseURL = baseUri,
                headers = [(''Authorization'', ''Bearer '' @ sessionId), (''Origin'', baseUri)],
                body = JObj [(''complete'', JBool True)],
                follows = [],
                templates = [],
                params = JUndefined \<rparr>]
       \<and> map_of (headers (hd (snd (completeTask axios_post baseUri sessionId task)))) ''Authorization''
           = Some (''Bearer '' @ sessionId)
       \<and> (\<forall>r. axios_post (hd (snd (completeTask axios_post baseUri sessionId task))) = Inr r
              \<longrightarrow> fst (completeTask axios_post baseUri sessionId task) = Inr ())"
  using assms
  by (simp add: completeTask_def completeTask_request_def Let_def)

theorem completeTask_one_post_witness:
  "task_location (TaskString ''/some/task/location'') = Some ''/some/task/location''
   \<and> completeTask (echo_server JUndefined JNull) ''https://h'' ''SID''
         (TaskString ''/some/task/location'')
     = (Inr (),
        [\<lparr> meth = POST,
           url = ''/some/task/location/completionState'',
           baseURL = ''https://h'',
           headers = [(''Authorization'', ''Bearer SID''), (''Origin'', ''https://h'')],
           body = JObj [(''complete'', JBool True)],
           follows = [],
           templates = [],
           params = JUndefined \<rparr>])"
proof -
  have l: "task_location (TaskString ''/some/task/location'') = Some ''/some/task/location''"
    by simp
  note inst = completeTask_one_post [where axios_post = "echo_server JUndefined JNull"
      and baseUri = "''https://h''" and sessionId = "''SID''", OF l]
  from inst have reqs: "snd (completeTask (echo_server JUndefined JNull) ''https://h'' ''SID''
         (TaskString ''/some/task/location''))
     = [\<lparr> meth = POST,
           url = ''/some/task/location/completionState'',
           baseURL = ''https://h'',
           headers = [(''Authorization'', ''Bearer SID''), (''Origin'', ''https://h'')],
           body = JObj [(''complete'', JBool True)],
           follows = [],
           templates = [],
           params = JUndefined \<rparr>]"
    by simp
  from inst have "fst (completeTask (echo_server JUndefined JNull) ''https://h'' ''SID''
         (TaskString ''/some/task/location'')) = Inr ()"
    by (simp add: echo_server_def)
  with reqs l show ?thesis
    by (simp add: prod_eq_iff)
qed

section \<open>Properties of fetching a DmsObject\<close>

lemma getDmsObject_resolved:
  assumes "axios_get (getDmsObject_request ctx ps) = Inr r"
  shows "fst (getDmsObject axios_get ctx ps transform_arg)
           = (case (case transform_arg of None \<Rightarrow> default_transform | Some t \<Rightarrow> t) r of
                Inl e \<Rightarrow> Inl (getDmsObject_catch e)
              | Inr x \<Rightarrow> settle_returned x)"
  using assms by (simp add: getDmsObject_def Let_def)

lemma getDmsObject_resolved_default:
  assumes "axios_get (getDmsObject_request ctx ps) = Inr r"
  shows "fst (getDmsObject axios_get ctx ps None)
           = (case transformGetDmsObjectResponse r of
                Inl e \<Rightarrow> Inl (getDmsObject_catch e)
              | Inr v \<Rightarrow> Inr v)"
  using assms
  by (simp add: getDmsObject_def Let_def default_transform_def split: sum.splits)

lemma getDmsObject_rejected:
  assumes "axios_get (getDmsObject_request ctx ps) = Inl e"
  shows "fst (getDmsObject axios_get ctx ps transform_arg) = Inl (getDmsObject_catch e)"
  using assms by (simp add: getDmsObject_def Let_def)

lemma transform_readable:
  assumes "\<not> nullish (params (config r))" and "\<not> nullish (data r)"
  shows "transformGetDmsObjectResponse r
           = Inr (JObj [(''repositoryId'', js_prop (params (config r)) ''repositoryid''),
                        (''sourceId'', js_prop (params (config r)) ''sourceid''),
                        (''id'', js_prop (data r) ''id''),
                        (''categories'', js_prop (data r) ''sourceCategories''),
                        (''properties'', js_prop (data r) ''sourceProperties'')])"
  using assms by (simp add: transformGetDmsObjectResponse_def and_then_def js_get_def)

lemma transform_params_nullish:
  assumes "nullish (params (config r))"
  shows "transformGetDmsObjectResponse r = Inl (cannot_read (params (config r)) ''repositoryid'')"
  using assms by (simp add: transformGetDmsObjectResponse_def and_then_def js_get_def)

lemma transform_data_nullish:
  assumes "\<not> nullish (params (config r))" and "nullish (data r)"
  shows "transformGetDmsObjectResponse r = Inl (cannot_read (data r) ''id'')"
  using assms by (simp add: transformGetDmsObjectResponse_def and_then_def js_get_def)

lemma catch_not_axios:
  "\<not> isAxiosError e \<Longrightarrow>
     getDmsObject_catch e = Rethrown (e\<lparr>message := ''Failed to get dmsObject: '' @ message e\<rparr>)"
  by (simp add: getDmsObject_catch_def rethrow_def)

lemma catch_other_status:
  "map_option status (response e) \<notin> {Some 400, Some 401, Some 404} \<Longrightarrow>
     getDmsObject_catch e = Rethrown (e\<lparr>message := ''Failed to get dmsObject: '' @ message e\<rparr>)"
  by (cases "response e") (auto simp add: getDmsObject_catch_def rethrow_def Let_def)

text \<open>
  C3 does not hold of the code. The request of \<^verbatim>\<open>getDmsObject\<close> passes the ids in
  \<^verbatim>\<open>templates\<close> and sets no \<^verbatim>\<open>params\<close>, while the default transform reads
  \<^verbatim>\<open>response.config.params.repositoryid\<close> first. For every successful response
  whose echoed configuration has the \<^verbatim>\<open>params\<close> of the request sent, whatever its
  body, that read throws a TypeError inside the \<^verbatim>\<open>try\<close>: the call rejects with the
  TypeError, its message prefixed, and returns no DmsObject.
\<close>

theorem getDmsObject_default_rejects_echoed_request:
  assumes "axios_get (getDmsObject_request ctx ps) = Inr r"
    and "params (config r) = params (getDmsObject_request ctx ps)"
  shows "fst (getDmsObject axios_get ctx ps None)
           = Inl (Rethrown
               \<lparr> message = ''Failed to get dmsObject: Cannot read properties of undefined (reading 'repositoryid')'',
                 isAxiosError = False,
                 response = None,
                 others = [(''name'', JStr ''TypeError'')] \<rparr>)
       \<and> (\<forall>obj. fst (getDmsObject axios_get ctx ps None) \<noteq> Inr obj)"
proof -
  from assms(2) have u: "params (config r) = JUndefined"
    by (simp add: getDmsObject_request_def)
  then have "nullish (params (config r))"
    by (simp add: nullish_def)
  from transform_params_nullish [OF this] u
    getDmsObject_resolved_default [where axios_get = axios_get, OF assms(1)]
    catch_not_axios [of "cannot_read JUndefined ''repositoryid''"]
  show ?thesis
    by (simp add: cannot_read_def)
qed

theorem getDmsObject_default_without_params:
  "echo_server JUndefined example_body (getDmsObject_request example_context example_params)
     = Inr \<lparr> data = example_body, status = 200,
             config = getDmsObject_request example_context example_params \<rparr>
   \<and> fst (getDmsObject (echo_server JUndefined example_body) example_context example_params None)
     = Inl (Rethrown
         \<lparr> message = ''Failed to get dmsObject: Cannot read properties of undefined (reading 'repositoryid')'',
           isAxiosError = False,
           response = None,
           others = [(''name'', JStr ''TypeError'')] \<rparr>)"
proof -
  let ?req = "getDmsObject_request example_context example_params"
  let ?r = "\<lparr> data = example_body, status = 200, config = ?req \<rparr>"
  have a: "echo_server JUndefined example_body ?req = Inr ?r"
    by (simp add: echo_server_def getDmsObject_request_def)
  have b: "params (config ?r) = params ?req"
    by simp
  from getDmsObject_default_rejects_echoed_request
         [where axios_get = "echo_server JUndefined example_body", OF a b] a
  show ?thesis
    by simp
qed

text \<open>
  C4. With a caller-supplied transform \<open>t\<close> and a successful response \<open>r\<close>,
  \<^verbatim>\<open>getDmsObject\<close> hands back what \<open>t\<close> returns on the raw response \<open>r\<close>: the
  value returned, or the settlement of the promise returned (its value, or its own
  rejection, untouched); the default transform takes no part. Without a transform
  argument the default transform \<^verbatim>\<open>transformGetDmsObjectResponse\<close> is applied to
  \<open>r\<close> instead. (A transform that throws makes the call reject through the
  \<^verbatim>\<open>catch\<close> block.) One request is issued in either case.
\<close>

theorem getDmsObject_applies_transform:
  assumes "axios_get (getDmsObject_request ctx ps) = Inr r"
  shows "(\<forall>v. t r = Inr (Returned v) \<longrightarrow>
            fst (getDmsObject axios_get ctx ps (Some t)) = Inr v)
       \<and> (\<forall>v. t r = Inr (ReturnedPromise (Inr v)) \<longrightarrow>
            fst (getDmsObject axios_get ctx ps (Some t)) = Inr v)
       \<and> (\<forall>e. t r = Inr (ReturnedPromise (Inl e)) \<longrightarrow>
            fst (getDmsObject axios_get ctx ps (Some t)) = Inl (Uncaught e))
       \<and> (\<forall>e. t r = Inl e \<longrightarrow>
            fst (getDmsObject axios_get ctx ps (Some t)) = Inl (getDmsObject_catch e))
       \<and> fst (getDmsObject axios_get ctx ps None)
           = (case transformGetDmsObjectResponse r of
                Inl e \<Rightarrow> Inl (getDmsObject_catch e)
              | Inr v \<Rightarrow> Inr v)
       \<and> snd (getDmsObject axios_get ctx ps (Some t)) = [getDmsObject_request ctx ps]
       \<and> snd (getDmsObject axios_get ctx ps None) = [getDmsObject_request ctx ps]"
  using getDmsObject_resolved [where axios_get = axios_get and transform_arg = "Some t", OF assms]
    getDmsObject_resolved_default [where axios_get = axios_get, OF assms]
  by (simp add: getDmsObject_def Let_def)

theorem getDmsObject_applies_transform_witness:
  "fst (getDmsObject (echo_server JUndefined example_body) example_context example_params
          (Some status_transform)) = Inr (JNum 200)
   \<and> fst (getDmsObject (echo_server JUndefined example_body) example_context example_params
          (Some async_status_transform)) = Inr (JNum 200)
   \<and> fst (getDmsObject (echo_server example_echoed_params example_body) example_context
          example_params None)
     = Inr (JObj [(''repositoryId'', JStr ''repo1''),
                  (''sourceId'', JStr ''src1''),
                  (''id'', JStr ''D42''),
                  (''categories'', JArr [JStr ''invoice'']),
                  (''properties'', JArr [JObj [(''key'', JStr ''k''), (''value'', JStr ''v'')]])])"
proof -
  let ?req = "getDmsObject_request example_context example_params"
  let ?ra = "\<lparr> data = example_body, status = 200, config = ?req\<lparr>params := JUndefined\<rparr> \<rparr>"
  let ?rb = "\<lparr> data = example_body, status = 200, config = ?req\<lparr>params := example_echoed_params\<rparr> \<rparr>"
  have a1: "echo_server JUndefined example_body ?req = Inr ?ra"
    by (simp add: echo_server_def)
  have a2: "echo_server example_echoed_params example_body ?req = Inr ?rb"
    by (simp add: echo_server_def)
  have t1: "status_transform ?ra = Inr (Returned (JNum 200))"
    by (simp add: status_transform_def)
  have t1': "async_status_transform ?ra = Inr (ReturnedPromise (Inr (JNum 200)))"
    by (simp add: async_status_transform_def)
  have t2: "transformGetDmsObjectResponse ?rb
     = Inr (JObj [(''repositoryId'', JStr ''repo1''),
                  (''sourceId'', JStr ''src1''),
                  (''id'', JStr ''D42''),
                  (''categories'', JArr [JStr ''invoice'']),
                  (''properties'', JArr [JObj [(''key'', JStr ''k''), (''value'', JStr ''v'')]])])"
    by (simp add: transformGetDmsObjectResponse_def and_then_def js_get_def nullish_def
        example_echoed_params_def example_body_def)
  from getDmsObject_applies_transform
         [where axios_get = "echo_server JUndefined example_body" and t = status_transform, OF a1] t1
  have "fst (getDmsObject (echo_server JUndefined example_body) example_context example_params
          (Some status_transform)) = Inr (JNum 200)"
    by simp
  moreover
  from getDmsObject_applies_transform
         [where axios_get = "echo_server JUndefined example_body" and t = async_status_transform, OF a1] t1'
  have "fst (getDmsObject (echo_server JUndefined example_body) example_context example_params
          (Some async_status_transform)) = Inr (JNum 200)"
    by simp
  moreover
  from getDmsObject_applies_transform
         [where axios_get = "echo_server example_echoed_params example_body" and t = status_transform, OF a2] t2
  have "fst (getDmsObject (echo_server example_echoed_params example_body) example_context
          example_params None)
     = Inr (JObj [(''repositoryId'', JStr ''repo1''),
                  (''sourceId'', JStr ''src1''),
                  (''id'', JStr ''D42''),
                  (''categories'', JArr [JStr ''invoice'']),
                  (''properties'', JArr [JObj [(''key'', JStr ''k''), (''value'', JStr ''v'')]])])"
    by simp
  ultimately show ?thesis
    by simp
qed

text \<open>
  C5. When the request of \<^verbatim>\<open>getDmsObject\<close> fails with a response, axios rejects with
  an axios error that carries the response. For such a failure with status 400 the call
  throws BadRequestError, with status 401 UnauthorizedError, with status 404
  NotFoundError, each built from the context string and the caught error; in none of
  the three cases does the call rethrow the caught error or return a result.
\<close>

theorem getDmsObject_status_errors:
  assumes "axios_get (getDmsObject_request ctx ps) = Inl e"
    and "isAxiosError e"
    and "response e = Some r"
  shows "(status r = 400 \<longrightarrow>
            fst (getDmsObject axios_get ctx ps transform_arg)
              = Inl (Typed (BadRequestError ''Failed to get dmsObject'' e)))
       \<and> (status r = 401 \<longrightarrow>
            fst (getDmsObject axios_get ctx ps transform_arg)
              = Inl (Typed (UnauthorizedError ''Failed to get dmsObject'' e)))
       \<and> (status r = 404 \<longrightarrow>
            fst (getDmsObject axios_get ctx ps transform_arg)
              = Inl (Typed (NotFoundError ''Failed to get dmsObject'' e)))
       \<and> (status r \<in> {400, 401, 404} \<longrightarrow>
            (\<forall>e'. fst (getDmsObject axios_get ctx ps transform_arg) \<noteq> Inl (Rethrown e'))
          \<and> (\<forall>v. fst (getDmsObject axios_get ctx ps transform_arg) \<noteq> Inr v))"
  using getDmsObject_rejected [where axios_get = axios_get and transform_arg = transform_arg, OF assms(1)]
    assms(2,3)
  by (auto simp add: getDmsObject_catch_def)

theorem getDmsObject_status_errors_witness:
  "fst (getDmsObject (failing_server True 400) example_context example_params None)
     = Inl (Typed (BadRequestError ''Failed to get dmsObject''
         (status_failure True 400 (getDmsObject_request example_context example_params))))
   \<and> fst (getDmsObject (failing_server True 401) example_context example_params None)
     = Inl (Typed (UnauthorizedError ''Failed to get dmsObject''
         (status_failure True 401 (getDmsObject_request example_context example_params))))
   \<and> fst (getDmsObject (failing_server True 404) example_context example_params None)
     = Inl (Typed (NotFoundError ''Failed to get dmsObject''
         (status_failure True 404 (getDmsObject_request example_context example_params))))"
proof -
  let ?req = "getDmsObject_request example_context example_params"
  have a: "failing_server True code ?req = Inl (status_failure True code ?req)" for code
    by (simp add: failing_server_def)
  have b: "isAxiosError (status_failure True code ?req)" for code
    by (simp add: status_failure_def)
  have c: "response (status_failure True code ?req)
             = Some \<lparr> data = JNull, status = code, config = ?req \<rparr>" for code
    by (simp add: status_failure_def)
  from getDmsObject_status_errors
         [where axios_get = "failing_server True 400" and transform_arg = None, OF a b c]
  have "fst (getDmsObject (failing_server True 400) example_context example_params None)
     = Inl (Typed (BadRequestError ''Failed to get dmsObject'' (status_failure True 400 ?req)))"
    by simp
  moreover
  from getDmsObject_status_errors
         [where axios_get = "failing_server True 401" and transform_arg = None, OF a b c]
  have "fst (getDmsObject (failing_server True 401) example_context example_params None)
     = Inl (Typed (UnauthorizedError ''Failed to get dmsObject'' (status_failure True 401 ?req)))"
    by simp
  moreover
  from getDmsObject_status_errors
         [where axios_get = "failing_server True 404" and transform_arg = None, OF a b c]
  have "fst (getDmsObject (failing_server True 404) example_context example_params None)
     = Inl (Typed (NotFoundError ''Failed to get dmsObject'' (status_failure True 404 ?req)))"
    by simp
  ultimately show ?thesis
    by simp
qed

text \<open>
  C6, as stated, fails: \<^verbatim>\<open>getDmsObject\<close> has no case for status 403. An axios error
  with a 403 response is rethrown, its message prefixed; no typed error is built.
\<close>

theorem getDmsObject_403_is_rethrown:
  "fst (getDmsObject (failing_server True 403) example_context example_params None)
     = Inl (Rethrown
         \<lparr> message = ''Failed to get dmsObject: Request failed'',
           isAxiosError = True,
           response = Some \<lparr> data = JNull, status = 403,
                             config = getDmsObject_request example_context example_params \<rparr>,
           others = [(''name'', JStr ''Error'')] \<rparr>)"
  by (simp add: getDmsObject_def Let_def failing_server_def status_failure_def
      getDmsObject_catch_def rethrow_def)

text \<open>
  C6, amended. For every call of \<^verbatim>\<open>getDmsObject\<close> whose request fails with a
  response carrying status 403, the call rethrows the caught error itself with its
  message prefixed by the context string \<^verbatim>\<open>Failed to get dmsObject\<close>; it builds no
  typed error.
\<close>

theorem getDmsObject_403_generic:
  assumes "axios_get (getDmsObject_request ctx ps) = Inl e"
    and "response e = Some r"
    and "status r = 403"
  shows "fst (getDmsObject axios_get ctx ps transform_arg)
           = Inl (Rethrown (e\<lparr>message := ''Failed to get dmsObject: '' @ message e\<rparr>))
       \<and> (\<forall>te. fst (getDmsObject axios_get ctx ps transform_arg) \<noteq> Inl (Typed te))"
proof -
  from assms(2,3) have "map_option status (response e) \<notin> {Some 400, Some 401, Some 404}"
    by simp
  from catch_other_status [OF this]
    getDmsObject_rejected [where axios_get = axios_get and transform_arg = transform_arg, OF assms(1)]
  show ?thesis
    by simp
qed

theorem getDmsObject_403_generic_witness:
  "fst (getDmsObject (failing_server True 403) example_context example_params None)
     = Inl (Rethrown
         ((status_failure True 403 (getDmsObject_request example_context example_params))
            \<lparr>message := ''Failed to get dmsObject: Request failed''\<rparr>))"
proof -
  let ?req = "getDmsObject_request example_context example_params"
  have a: "failing_server True 403 ?req = Inl (status_failure True 403 ?req)"
    by (simp add: failing_server_def)
  have b: "response (status_failure True 403 ?req)
             = Some \<lparr> data = JNull, status = 403, config = ?req \<rparr>"
    by (simp add: status_failure_def)
  have c: "status \<lparr> data = JNull, status = 403, config = ?req \<rparr> = 403"
    by simp
  from getDmsObject_403_generic
         [where axios_get = "failing_server True 403" and transform_arg = None, OF a b c]
  show ?thesis
    by (simp add: status_failure_def)
qed

section \<open>Failures outside the documented status codes\<close>

lemma completeTask_rejected:
  assumes "task_location task = Some loc"
    and "axios_post (completeTask_request baseUri sessionId loc) = Inl e"
  shows "fst (completeTask axios_post baseUri sessionId task)
           = Inl (completeTask_catch ''Failed to complete task'' loc e)"
  using assms by (simp add: completeTask_def Let_def)

lemma completeTask_catch_other_status:
  "map_option status (response e) \<notin> {Some 401, Some 403, Some 404, Some 410} \<Longrightarrow>
     completeTask_catch ctx loc e = Rethrown (e\<lparr>message := ctx @ '': '' @ message e\<rparr>)"
  by (cases "response e") (auto simp add: completeTask_catch_def rethrow_def)

text \<open>
  C8, as stated, fails: not every failure of \<^verbatim>\<open>getDmsObject\<close> reaches its
  \<^verbatim>\<open>catch\<close> block. Line 89 returns what the transform returns without awaiting it,
  so when the transform returns a promise that rejects, the call rejects with that error
  as it is; its message is not prefixed.
\<close>

theorem getDmsObject_rejected_promise_unprefixed:
  "fst (getDmsObject (echo_server example_echoed_params example_body) example_context
          example_params (Some rejecting_transform))
     = Inl (Uncaught
         \<lparr> message = ''unexpected body'',
           isAxiosError = False,
           response = None,
           others = [(''name'', JStr ''Error'')] \<rparr>)"
  by (simp add: getDmsObject_def Let_def echo_server_def rejecting_transform_def
      transform_failure_def)

text \<open>
  C8, amended. For every Error object caught by the \<^verbatim>\<open>catch\<close> block of
  \<^verbatim>\<open>getDmsObject\<close> (the rejection of its request, or an error its transform throws)
  whose status is none of 400, 401, 404, and for every Error object caught by the
  \<^verbatim>\<open>catch\<close> block of \<^verbatim>\<open>completeTask\<close> (the rejection of its request) whose status
  is none of 401, 403, 404, 410 (an error without a response has no status), the call
  rejects with the caught error itself, its message replaced by the context string of
  the operation, a colon, a space and the original message; the record update leaves
  every other field of the error as it was.
\<close>

theorem unclassified_failures_rethrown:
  "(axios_get (getDmsObject_request ctx ps) = Inl e
      \<and> map_option status (response e) \<notin> {Some 400, Some 401, Some 404}
    \<longrightarrow> fst (getDmsObject axios_get ctx ps transform_arg)
          = Inl (Rethrown (e\<lparr>message := ''Failed to get dmsObject: '' @ message e\<rparr>)))
   \<and> (axios_get (getDmsObject_request ctx ps) = Inr r
      \<and> (case transform_arg of None \<Rightarrow> default_transform | Some t \<Rightarrow> t) r = Inl e
      \<and> map_option status (response e) \<notin> {Some 400, Some 401, Some 404}
    \<longrightarrow> fst (getDmsObject axios_get ctx ps transform_arg)
          = Inl (Rethrown (e\<lparr>message := ''Failed to get dmsObject: '' @ message e\<rparr>)))
   \<and> (task_location task = Some loc
      \<and> axios_post (completeTask_request baseUri sessionId loc) = Inl e
      \<and> map_option status (response e) \<notin> {Some 401, Some 403, Some 404, Some 410}
    \<longrightarrow> fst (completeTask axios_post baseUri sessionId task)
          = Inl (Rethrown (e\<lparr>message := ''Failed to complete task: '' @ message e\<rparr>)))
   \<and> isAxiosError (e\<lparr>message := m\<rparr>) = isAxiosError e
   \<and> response (e\<lparr>message := m\<rparr>) = response e
   \<and> others (e\<lparr>message := m\<rparr>) = others e"
proof -
  have "fst (getDmsObject axios_get ctx ps transform_arg)
          = Inl (Rethrown (e\<lparr>message := ''Failed to get dmsObject: '' @ message e\<rparr>))"
    if "axios_get (getDmsObject_request ctx ps) = Inl e"
      and "map_option status (response e) \<notin> {Some 400, Some 401, Some 404}"
    using getDmsObject_rejected [where axios_get = axios_get and transform_arg = transform_arg, OF that(1)]
      catch_other_status [OF that(2)]
    by simp
  moreover
  have "fst (getDmsObject axios_get ctx ps transform_arg)
          = Inl (Rethrown (e\<lparr>message := ''Failed to get dmsObject: '' @ message e\<rparr>))"
    if "axios_get (getDmsObject_request ctx ps) = Inr r"
      and "(case transform_arg of None \<Rightarrow> default_transform | Some t \<Rightarrow> t) r = Inl e"
      and "map_option status (response e) \<notin> {Some 400, Some 401, Some 404}"
    using getDmsObject_resolved [where axios_get = axios_get and transform_arg = transform_arg, OF that(1)]
      that(2) catch_other_status [OF that(3)]
    by simp
  moreover
  have "fst (completeTask axios_post baseUri sessionId task)
          = Inl (Rethrown (e\<lparr>message := ''Failed to complete task: '' @ message e\<rparr>))"
    if "task_location task = Some loc"
      and "axios_post (completeTask_request baseUri sessionId loc) = Inl e"
      and "map_option status (response e) \<notin> {Some 401, Some 403, Some 404, Some 410}"
    using completeTask_rejected [where axios_post = axios_post, OF that(1,2)]
      completeTask_catch_other_status [OF that(3), of "''Failed to complete task''" loc]
    by simp
  ultimately show ?thesis
    by simp
qed

theorem unclassified_failures_rethrown_witness:
  "fst (getDmsObject (settle_all (Inl network_error)) example_context example_params None)
     = Inl (Rethrown
         \<lparr> message = ''Failed to get dmsObject: connect ECONNREFUSED'',
           isAxiosError = True,
           response = None,
           others = [(''code'', JStr ''ECONNREFUSED'')] \<rparr>)
   \<and> fst (getDmsObject (echo_server example_echoed_params example_body) example_context
          example_params (Some throwing_transform))
     = Inl (Rethrown
         \<lparr> message = ''Failed to get dmsObject: unexpected body'',
           isAxiosError = False,
           response = None,
           others = [(''name'', JStr ''Error'')] \<rparr>)
   \<and> fst (completeTask (failing_server True 500) ''https://h'' ''SID'' (TaskString ''/t/7''))
     = Inl (Rethrown
         \<lparr> message = ''Failed to complete task: Request failed'',
           isAxiosError = True,
           response = Some \<lparr> data = JNull, status = 500,
                             config = completeTask_request ''https://h'' ''SID'' ''/t/7'' \<rparr>,
           others = [(''name'', JStr ''Error'')] \<rparr>)
   \<and> fst (completeTask (settle_all (Inl network_error)) ''https://h'' ''SID'' (TaskString ''/t/7''))
     = Inl (Rethrown
         \<lparr> message = ''Failed to complete task: connect ECONNREFUSED'',
           isAxiosError = True,
           response = None,
           others = [(''code'', JStr ''ECONNREFUSED'')] \<rparr>)"
proof -
  let ?greq = "getDmsObject_request example_context example_params"
  let ?preq = "completeTask_request ''https://h'' ''SID'' ''/t/7''"
  let ?r = "\<lparr> data = example_body, status = 200, config = ?greq\<lparr>params := example_echoed_params\<rparr> \<rparr>"
  have g1: "settle_all (Inl network_error) ?greq = Inl network_error"
    by (simp add: settle_all_def)
  have g2: "map_option status (response network_error) \<notin> {Some 400, Some 401, Some 404}"
    by (simp add: network_error_def)
  from unclassified_failures_rethrown
         [where axios_get = "settle_all (Inl network_error)" and e = network_error
            and ctx = example_context and ps = example_params and transform_arg = None]
       g1 g2
  have a: "fst (getDmsObject (settle_all (Inl network_error)) example_context example_params None)
     = Inl (Rethrown
         \<lparr> message = ''Failed to get dmsObject: connect ECONNREFUSED'',
           isAxiosError = True,
           response = None,
           others = [(''code'', JStr ''ECONNREFUSED'')] \<rparr>)"
    by (simp add: network_error_def)
  have t1: "echo_server example_echoed_params example_body ?greq = Inr ?r"
    by (simp add: echo_server_def)
  have t2: "(case Some throwing_transform of None \<Rightarrow> default_transform | Some t \<Rightarrow> t) ?r
              = Inl transform_failure"
    by (simp add: throwing_transform_def)
  have t3: "map_option status (response transform_failure) \<notin> {Some 400, Some 401, Some 404}"
    by (simp add: transform_failure_def)
  from unclassified_failures_rethrown
         [where axios_get = "echo_server example_echoed_params example_body" and r = ?r
            and e = transform_failure
            and ctx = example_context and ps = example_params
            and transform_arg = "Some throwing_transform"]
       t1 t2 t3
  have b: "fst (getDmsObject (echo_server example_echoed_params example_body) example_context
          example_params (Some throwing_transform))
     = Inl (Rethrown
         \<lparr> message = ''Failed to get dmsObject: unexpected body'',
           isAxiosError = False,
           response = None,
           others = [(''name'', JStr ''Error'')] \<rparr>)"
    by (simp add: transform_failure_def)
  have c1: "task_location (TaskString ''/t/7'') = Some ''/t/7''"
    by simp
  have c2: "failing_server True 500 ?preq = Inl (status_failure True 500 ?preq)"
    by (simp add: failing_server_def)
  have c3: "map_option status (response (status_failure True 500 ?preq))
              \<notin> {Some 401, Some 403, Some 404, Some 410}"
    by (simp add: status_failure_def)
  from unclassified_failures_rethrown
         [where axios_post = "failing_server True 500" and e = "status_failure True 500 ?preq"
            and task = "TaskString ''/t/7''" and loc = "''/t/7''"
            and baseUri = "''https://h''" and sessionId = "''SID''"]
       c1 c2 c3
  have c: "fst (completeTask (failing_server True 500) ''https://h'' ''SID'' (TaskString ''/t/7''))
     = Inl (Rethrown
         \<lparr> message = ''Failed to complete task: Request failed'',
           isAxiosError = True,
           response = Some \<lparr> data = JNull, status = 500, config = ?preq \<rparr>,
           others = [(''name'', JStr ''Error'')] \<rparr>)"
    by (simp add: status_failure_def)
  have d2: "settle_all (Inl network_error) ?preq = Inl network_error"
    by (simp add: settle_all_def)
  have d3: "map_option status (response network_error)
              \<notin> {Some 401, Some 403, Some 404, Some 410}"
    by (simp add: network_error_def)
  from unclassified_failures_rethrown
         [where axios_post = "settle_all (Inl network_error)" and e = network_error
            and task = "TaskString ''/t/7''" and loc = "''/t/7''"
            and baseUri = "''https://h''" and sessionId = "''SID''"]
       c1 d2 d3
  have d: "fst (completeTask (settle_all (Inl network_error)) ''https://h'' ''SID'' (TaskString ''/t/7''))
     = Inl (Rethrown
         \<lparr> message = ''Failed to complete task: connect ECONNREFUSED'',
           isAxiosError = True,
           response = None,
           others = [(''code'', JStr ''ECONNREFUSED'')] \<rparr>)"
    by (simp add: network_error_def)
  from a b c d show ?thesis
    by simp
qed



text \<open>
  C10. The request of \<^verbatim>\<open>getDmsObject\<close> carries the three ids in \<^verbatim>\<open>templates\<close> and
  sets no \<^verbatim>\<open>params\<close>. In the DmsObject of the default transform, repositoryId and
  sourceId are the properties \<^verbatim>\<open>repositoryid\<close> and \<^verbatim>\<open>sourceid\<close> of the
  \<^verbatim>\<open>config.params\<close> the response echoes: they are determined by that value alone,
  not by the body and not by the caller's parameters. Where \<^verbatim>\<open>config.params\<close> is an
  object without such an entry the field is \<^verbatim>\<open>undefined\<close>, and where it is
  \<^verbatim>\<open>undefined\<close> or \<^verbatim>\<open>null\<close> no DmsObject is produced at all: the call rejects.
\<close>

theorem default_transform_ids_from_echoed_params:
  assumes "axios_get (getDmsObject_request ctx ps) = Inr r"
  shows "params (getDmsObject_request ctx ps) = JUndefined
       \<and> templates (getDmsObject_request ctx ps)
           = [(''repositoryid'', repositoryId ps), (''dmsobjectid'', dmsObjectId ps),
              (''sourceid'', sourceId ps)]
       \<and> (\<forall>obj. fst (getDmsObject axios_get ctx ps None) = Inr obj \<longrightarrow>
              js_prop obj ''repositoryId'' = js_prop (params (config r)) ''repositoryid''
            \<and> js_prop obj ''sourceId'' = js_prop (params (config r)) ''sourceid'')
       \<and> (\<forall>obj kvs. fst (getDmsObject axios_get ctx ps None) = Inr obj
              \<and> params (config r) = JObj kvs \<and> map_of kvs ''repositoryid'' = None
            \<longrightarrow> js_prop obj ''repositoryId'' = JUndefined)
       \<and> (\<forall>obj kvs. fst (getDmsObject axios_get ctx ps None) = Inr obj
              \<and> params (config r) = JObj kvs \<and> map_of kvs ''sourceid'' = None
            \<longrightarrow> js_prop obj ''sourceId'' = JUndefined)
       \<and> (nullish (params (config r)) \<longrightarrow>
              fst (getDmsObject axios_get ctx ps None)
                = Inl (Rethrown ((cannot_read (params (config r)) ''repositoryid'')
                    \<lparr>message := ''Failed to get dmsObject: ''
                       @ message (cannot_read (params (config r)) ''repositoryid'')\<rparr>)))"
proof -
  note res = getDmsObject_resolved_default [where axios_get = axios_get, OF assms]
  have ids: "js_prop obj ''repositoryId'' = js_prop (params (config r)) ''repositoryid''
           \<and> js_prop obj ''sourceId'' = js_prop (params (config r)) ''sourceid''"
    if "fst (getDmsObject axios_get ctx ps None) = Inr obj" for obj
  proof (cases "nullish (params (config r))")
    case True
    from transform_params_nullish [OF True] res that show ?thesis
      by simp
  next
    case False
    note p = this
    show ?thesis
    proof (cases "nullish (data r)")
      case True
      from transform_data_nullish [OF p True] res that show ?thesis
        by simp
    next
      case False
      from transform_readable [OF p False] res that show ?thesis
        by auto
    qed
  qed
  have rej: "fst (getDmsObject axios_get ctx ps None)
                = Inl (Rethrown ((cannot_read (params (config r)) ''repositoryid'')
                    \<lparr>message := ''Failed to get dmsObject: ''
                       @ message (cannot_read (params (config r)) ''repositoryid'')\<rparr>))"
    if "nullish (params (config r))"
    using transform_params_nullish [OF that] res
      catch_not_axios [of "cannot_read (params (config r)) ''repositoryid''"]
    by (simp add: cannot_read_def)
  have req: "params (getDmsObject_request ctx ps) = JUndefined
       \<and> templates (getDmsObject_request ctx ps)
           = [(''repositoryid'', repositoryId ps), (''dmsobjectid'', dmsObjectId ps),
              (''sourceid'', sourceId ps)]"
    by (simp add: getDmsObject_request_def)
  from ids have undef1: "js_prop obj ''repositoryId'' = JUndefined"
    if "fst (getDmsObject axios_get ctx ps None) = Inr obj"
      and "params (config r) = JObj kvs" and "map_of kvs ''repositoryid'' = None" for obj kvs
    using that by simp
  from ids have undef2: "js_prop obj ''sourceId'' = JUndefined"
    if "fst (getDmsObject axios_get ctx ps None) = Inr obj"
      and "params (config r) = JObj kvs" and "map_of kvs ''sourceid'' = None" for obj kvs
    using that by simp
  from req ids rej undef1 undef2 show ?thesis
    by blast
qed

theorem default_transform_ids_from_echoed_params_witness:
  "(\<exists>obj. fst (getDmsObject (echo_server (JObj [(''repositoryid'', JStr ''echoed'')])
                     (JObj [(''id'', JStr ''D42''), (''repositoryId'', JStr ''from-body'')]))
                  example_context example_params None) = Inr obj
        \<and> js_prop obj ''repositoryId'' = JStr ''echoed''
        \<and> js_prop obj ''sourceId'' = JUndefined)
   \<and> repositoryId example_params = ''repo1''
   \<and> sourceId example_params = ''src1''
   \<and> params (getDmsObject_request example_context example_params) = JUndefined
   \<and> fst (getDmsObject (echo_server JUndefined example_body) example_context example_params None)
     = Inl (Rethrown
         \<lparr> message = ''Failed to get dmsObject: Cannot read properties of undefined (reading 'repositoryid')'',
           isAxiosError = False,
           response = None,
           others = [(''name'', JStr ''TypeError'')] \<rparr>)"
proof -
  let ?req = "getDmsObject_request example_context example_params"
  let ?P = "JObj [(''repositoryid'', JStr ''echoed'')]"
  let ?B = "JObj [(''id'', JStr ''D42''), (''repositoryId'', JStr ''from-body'')]"
  let ?r = "\<lparr> data = ?B, status = 200, config = ?req\<lparr>params := ?P\<rparr> \<rparr>"
  let ?ru = "\<lparr> data = example_body, status = 200, config = ?req\<lparr>params := JUndefined\<rparr> \<rparr>"
  have a: "echo_server ?P ?B ?req = Inr ?r"
    by (simp add: echo_server_def)
  have a0: "echo_server JUndefined example_body ?req = Inr ?ru"
    by (simp add: echo_server_def)
  note inst = default_transform_ids_from_echoed_params
                [where axios_get = "echo_server ?P ?B", OF a]
  note inst0 = default_transform_ids_from_echoed_params
                [where axios_get = "echo_server JUndefined example_body", OF a0]
  have "\<not> nullish ?P" "\<not> nullish ?B"
    by (simp_all add: nullish_def)
  then obtain obj where
    obj: "fst (getDmsObject (echo_server ?P ?B) example_context example_params None) = Inr obj"
    using getDmsObject_resolved_default [where axios_get = "echo_server ?P ?B", OF a]
      transform_readable [of ?r]
    by simp
  with inst have "js_prop obj ''repositoryId'' = JStr ''echoed''"
    and "js_prop obj ''sourceId'' = JUndefined"
    by simp_all
  with obj have first: "\<exists>obj. fst (getDmsObject (echo_server ?P ?B)
                  example_context example_params None) = Inr obj
        \<and> js_prop obj ''repositoryId'' = JStr ''echoed''
        \<and> js_prop obj ''sourceId'' = JUndefined"
    by blast
  from inst0 have last: "fst (getDmsObject (echo_server JUndefined example_body)
                           example_context example_params None)
     = Inl (Rethrown
         \<lparr> message = ''Failed to get dmsObject: Cannot read properties of undefined (reading 'repositoryid')'',
           isAxiosError = False,
           response = None,
           others = [(''name'', JStr ''TypeError'')] \<rparr>)"
    by (simp add: nullish_def cannot_read_def)
  from inst have "params ?req = JUndefined"
    by simp
  with first last show ?thesis
    by (simp add: example_params_def)
qed

end
